theory Spec2Isabelle
  imports Main "HOL-Library.Sublist"
begin

section \<open>Python values used by AnyDown.py\<close>

text \<open>
  A Python \<open>str\<close> is a sequence of Unicode code points, so it is a list of naturals here.
  \<open>lit\<close> turns an ASCII literal of the source into that representation; the few non-ASCII
  characters of the source's messages are written as their code points.
\<close>

type_synonym pystr = "nat list"

definition lit :: "string \<Rightarrow> pystr" where
  "lit cs = map of_char cs"

text \<open>A name between apostrophes (code point 39), as Python prints it in its messages.\<close>

definition quoted :: "pystr \<Rightarrow> pystr" where
  "quoted u = 39 # u @ [39]"

text \<open>
  The values that reach the handler: \<open>message.text\<close> and the entries of the metadata
  dictionary returned by \<open>extract_info\<close> are strings, integers or \<open>None\<close>
  (floating-point durations are outside this model).
\<close>

datatype pyval = Str pystr | IntVal int | NoneVal

datatype exn_kind =
    DownloadError
  | AttributeError
  | TypeError
  | OSError
  | TelegramError
  | PlainException
  | CancelledError

text \<open>An exception is its class and its message (\<open>str(e)\<close>).\<close>

type_synonym exn = "exn_kind \<times> pystr"

text \<open>
  \<open>yt_dlp.utils.DownloadError\<close> is the class named by the first \<open>except\<close> clause; every
  class above except \<open>CancelledError\<close> derives from \<open>Exception\<close>
  (\<open>asyncio.CancelledError\<close> derives from \<open>BaseException\<close> only).
\<close>

definition is_DownloadError :: "exn \<Rightarrow> bool" where
  "is_DownloadError e = (fst e = DownloadError)"

definition is_Exception :: "exn \<Rightarrow> bool" where
  "is_Exception e = (fst e \<noteq> CancelledError)"

section \<open>URL classifier (lines 38-46, 62-67)\<close>

definition SUPPORTED_DOMAINS :: "pystr list" where
  "SUPPORTED_DOMAINS =
     [lit ''youtube.com'',
      lit ''youtu.be'',
      lit ''facebook.com'',
      lit ''fb.watch'',
      lit ''instagram.com'',
      lit ''twitter.com'',
      lit ''x.com'']"

text \<open>
  \<open>url.lower()\<close>: only a \<open>str\<close> has the method; on any other value the attribute lookup
  raises \<open>AttributeError\<close>. The Unicode lower-casing table is the Python runtime's, not
  the repository's, so it is the parameter \<open>lower\<close>.
\<close>

definition py_lower :: "(pystr \<Rightarrow> pystr) \<Rightarrow> pyval \<Rightarrow> exn + pystr" where
  "py_lower lower v =
     (case v of
        Str u \<Rightarrow> Inr (lower u)
      | IntVal i \<Rightarrow>
          Inl (AttributeError,
               quoted (lit ''int'') @ lit '' object has no attribute '' @ quoted (lit ''lower''))
      | NoneVal \<Rightarrow>
          Inl (AttributeError,
               quoted (lit ''NoneType'') @ lit '' object has no attribute ''
                 @ quoted (lit ''lower'')))"

text \<open>
  The body of the \<open>try\<close>: \<open>any(domain in url.lower() for domain in SUPPORTED_DOMAINS)\<close>.
  \<open>domain in s\<close> on strings is the contiguous-substring test, \<open>sublist\<close>.
\<close>

definition is_supported_url_try :: "(pystr \<Rightarrow> pystr) \<Rightarrow> pyval \<Rightarrow> exn + bool" where
  "is_supported_url_try lower url =
     (case py_lower lower url of
        Inl e \<Rightarrow> Inl e
      | Inr u \<Rightarrow> Inr (list_ex (\<lambda>domain. sublist domain u) SUPPORTED_DOMAINS))"

text \<open>The bare \<open>except:\<close> turns every exception of the body into \<open>False\<close>.\<close>

definition is_supported_url :: "(pystr \<Rightarrow> pystr) \<Rightarrow> pyval \<Rightarrow> bool" where
  "is_supported_url lower url =
     (case is_supported_url_try lower url of
        Inl e \<Rightarrow> False
      | Inr b \<Rightarrow> b)"

text \<open>
  The restriction of \<open>str.lower\<close> to ASCII, used to evaluate the classifier on concrete
  ASCII inputs.
\<close>

definition ascii_lower :: "pystr \<Rightarrow> pystr" where
  "ascii_lower u = map (\<lambda>c. if 65 \<le> c \<and> c \<le> 90 then c + 32 else c) u"

section \<open>Formatting and dictionary access\<close>

text \<open>\<open>str(n)\<close> for a Python integer: decimal digits, with a minus sign when negative.\<close>

fun nat_digits :: "nat \<Rightarrow> pystr" where
  "nat_digits n = (if n < 10 then [48 + n] else nat_digits (n div 10) @ [48 + n mod 10])"

declare nat_digits.simps [simp del]

definition int_str :: "int \<Rightarrow> pystr" where
  "int_str i = (if i < 0 then 45 # nat_digits (nat (- i)) else nat_digits (nat i))"

text \<open>What an f-string field \<open>{v}\<close> renders.\<close>

definition py_format :: "pyval \<Rightarrow> pystr" where
  "py_format v =
     (case v of
        Str u \<Rightarrow> u
      | IntVal i \<Rightarrow> int_str i
      | NoneVal \<Rightarrow> lit ''None'')"

text \<open>\<open>v // 60\<close>: floor division on integers, \<open>TypeError\<close> on a string or \<open>None\<close>.\<close>

definition py_floordiv60 :: "pyval \<Rightarrow> exn + pyval" where
  "py_floordiv60 v =
     (case v of
        IntVal i \<Rightarrow> Inr (IntVal (i div 60))
      | Str u \<Rightarrow>
          Inl (TypeError,
               lit ''unsupported operand type(s) for //: '' @ quoted (lit ''str'')
                 @ lit '' and '' @ quoted (lit ''int''))
      | NoneVal \<Rightarrow>
          Inl (TypeError,
               lit ''unsupported operand type(s) for //: '' @ quoted (lit ''NoneType'')
                 @ lit '' and '' @ quoted (lit ''int'')))"

type_synonym info_dict = "string \<rightharpoonup> pyval"

text \<open>\<open>info.get(key, default)\<close>\<close>

definition dict_get :: "info_dict \<Rightarrow> string \<Rightarrow> pyval \<Rightarrow> pyval" where
  "dict_get info k dflt = (case info k of None \<Rightarrow> dflt | Some v \<Rightarrow> v)"

text \<open>\<open>os.path.join(a, b)\<close> of \<open>posixpath\<close>, for two arguments; code point 47 is the slash.\<close>

definition os_path_join :: "pystr \<Rightarrow> pystr \<Rightarrow> pystr" where
  "os_path_join a b =
     (if prefix [47] b then b
      else if a = [] \<or> suffix [47] a then a @ b
      else a @ [47] @ b)"

section \<open>The messages of the handler\<close>

text \<open>Line 75; code point 10060 is the cross mark.\<close>

definition unsupported_text :: pystr where
  "unsupported_text =
     10060 # lit '' Unsupported platform. Send links from YouTube/Facebook/Instagram/Twitter only.''"

text \<open>Lines 93-94; 9203 is the hourglass, 9201 the stopwatch, 10 the newline.\<close>

definition progress_text :: "info_dict \<Rightarrow> exn + pystr" where
  "progress_text info =
     (case py_floordiv60 (dict_get info ''duration'' (IntVal 0)) of
        Inl e \<Rightarrow> Inl e
      | Inr minutes \<Rightarrow>
          Inr (9203 # lit '' Downloading: '' @ py_format (dict_get info ''title'' (Str (lit ''video'')))
               @ [10]
               @ 9201 # lit '' Duration: '' @ py_format minutes @ lit '' minutes''))"

text \<open>Line 113; 9989 is the check mark.\<close>

definition video_caption :: "info_dict \<Rightarrow> pystr" where
  "video_caption info =
     9989 # lit '' '' @ py_format (dict_get info ''title'' (Str (lit ''Downloaded Video'')))"

text \<open>Line 122; 128193 is the file folder.\<close>

definition document_caption :: pystr where
  "document_caption = 128193 # lit '' File too large for streaming, sent as document''"

text \<open>Line 131; 9888 and 65039 are the warning sign and its variation selector, 39 the apostrophe.\<close>

definition download_failed_text :: pystr where
  "download_failed_text =
     [9888, 65039] @ lit '' Couldn'' @ [39]
       @ lit ''t download this video. It might be private or age-restricted.''"

text \<open>Line 135.\<close>

definition unexpected_text :: pystr where
  "unexpected_text = 10060 # lit '' An unexpected error occurred. Please try again later.''"

section \<open>Collaborators: calls made, and what they answer\<close>

text \<open>
  Every call the handler makes to the messaging transport, the extraction backend, the
  logger and \<open>tempfile\<close> is recorded, in order, with the arguments the source passes:
  \<open>reply_video\<close> is called with \<open>video\<close>, \<open>caption\<close>, \<open>supports_streaming\<close>,
  \<open>read_timeout\<close> and \<open>write_timeout\<close>; \<open>reply_document\<close> with \<open>document\<close> and
  \<open>caption\<close> only.
\<close>

datatype event =
    ReplyText pystr
  | ReplyChatAction pystr
  | ReplyVideo pystr pystr bool nat nat
  | ReplyDocument pystr pystr
  | DeleteMessage nat
  | LogError pystr
  | TempDirCreated pystr
  | TempDirRemoved pystr
  | YoutubeDL pystr
  | ExtractInfo pyval
  | Download pyval

text \<open>
  The handler's observable state: the calls so far, the directories (each with the names it
  lists, in listing order), the files (each path with its size in bytes), and the local
  variable \<open>processing_msg\<close>, which the \<open>except\<close> clauses read after the \<open>try\<close> body has
  been left.
\<close>

record state =
  trace :: "event list"
  dirs :: "pystr \<rightharpoonup> pystr list"
  files :: "pystr \<rightharpoonup> nat"
  processing_msg :: "nat option"

text \<open>
  What the collaborators answer at each call site: \<open>None\<close> or \<open>Inr\<close> when the call returns,
  an exception when it raises. \<open>w_download_writes\<close> is what \<open>ydl.download\<close> leaves in the
  directory (name and size, in listing order), also when it raises.
\<close>

record world =
  w_reject_reply :: "exn option"
  w_mkdtemp :: "exn + pystr"
  w_ydl_init :: "exn option"
  w_typing_action :: "exn option"
  w_extract_info :: "exn + info_dict"
  w_notify_reply :: "exn + nat"
  w_download_writes :: "(pystr \<times> nat) list"
  w_download :: "exn option"
  w_upload_action :: "exn option"
  w_reply_video :: "exn option"
  w_reply_document :: "exn option"
  w_delete :: "exn option"
  w_download_failed_reply :: "exn option"
  w_unexpected_reply :: "exn option"
  w_delete_in_handler :: "exn option"

section \<open>Control flow: exceptions, \<open>try\<close>, \<open>with\<close>\<close>

type_synonym 'a act = "state \<Rightarrow> (exn + 'a) \<times> state"

definition act_raise :: "exn \<Rightarrow> 'a act" where
  "act_raise e s = (Inl e, s)"

definition act_bind :: "'a act \<Rightarrow> ('a \<Rightarrow> 'b act) \<Rightarrow> 'b act" where
  "act_bind m f s = (case m s of (Inl e, s') \<Rightarrow> (Inl e, s') | (Inr x, s') \<Rightarrow> f x s')"

definition act_lift :: "exn + 'a \<Rightarrow> 'a act" where
  "act_lift r s = (r, s)"

definition returned :: "exn option \<Rightarrow> exn + unit" where
  "returned r = (case r of None \<Rightarrow> Inr () | Some e \<Rightarrow> Inl e)"

text \<open>A call to a collaborator: it is recorded, then returns or raises as the world says.\<close>

definition call :: "event \<Rightarrow> exn + 'a \<Rightarrow> 'a act" where
  "call ev r s = (r, s\<lparr>trace := trace s @ [ev]\<rparr>)"

definition try_except :: "'a act \<Rightarrow> (exn \<Rightarrow> 'a act) \<Rightarrow> 'a act" where
  "try_except m handler s =
     (case m s of (Inl e, s') \<Rightarrow> handler e s' | (Inr x, s') \<Rightarrow> (Inr x, s'))"

text \<open>\<open>try: m except: pass\<close>\<close>

definition try_pass :: "unit act \<Rightarrow> unit act" where
  "try_pass m s = (case m s of (r, s') \<Rightarrow> (Inr (), s'))"

text \<open>
  \<open>with tempfile.TemporaryDirectory() as tmp_dir\<close>: entering creates an empty directory
  (or raises); leaving, by return or by exception, removes the directory and what it lists.
\<close>

definition TemporaryDirectory_enter :: "world \<Rightarrow> pystr act" where
  "TemporaryDirectory_enter w s =
     (case w_mkdtemp w of
        Inl e \<Rightarrow> (Inl e, s)
      | Inr d \<Rightarrow> (Inr d, s\<lparr>trace := trace s @ [TempDirCreated d], dirs := (dirs s)(d \<mapsto> [])\<rparr>))"

definition listing :: "state \<Rightarrow> pystr \<Rightarrow> pystr list" where
  "listing s d = (case dirs s d of None \<Rightarrow> [] | Some names \<Rightarrow> names)"

definition TemporaryDirectory_exit :: "pystr \<Rightarrow> state \<Rightarrow> state" where
  "TemporaryDirectory_exit d s =
     s\<lparr>trace := trace s @ [TempDirRemoved d],
       dirs := (dirs s)(d := None),
       files := fold (\<lambda>name m. m(os_path_join d name := None)) (listing s d) (files s)\<rparr>"

definition with_TemporaryDirectory :: "world \<Rightarrow> (pystr \<Rightarrow> 'a act) \<Rightarrow> 'a act" where
  "with_TemporaryDirectory w body s =
     (case TemporaryDirectory_enter w s of
        (Inl e, s1) \<Rightarrow> (Inl e, s1)
      | (Inr tmp_dir, s1) \<Rightarrow>
          (case body tmp_dir s1 of (r, s2) \<Rightarrow> (r, TemporaryDirectory_exit tmp_dir s2)))"

section \<open>File system calls\<close>

text \<open>\<open>ydl.download([url])\<close> writes its output into the directory of \<open>outtmpl\<close>.\<close>

definition ydl_download :: "world \<Rightarrow> pyval \<Rightarrow> pystr \<Rightarrow> unit act" where
  "ydl_download w url tmp_dir s =
     (returned (w_download w),
      s\<lparr>trace := trace s @ [Download url],
        dirs := (dirs s)(tmp_dir \<mapsto> listing s tmp_dir @ map fst (w_download_writes w)),
        files := fold (\<lambda>(name, sz) m. m(os_path_join tmp_dir name \<mapsto> sz))
                   (w_download_writes w) (files s)\<rparr>)"

definition os_listdir :: "pystr \<Rightarrow> pystr list act" where
  "os_listdir d s =
     (case dirs s d of
        None \<Rightarrow> (Inl (OSError, lit ''No such file or directory''), s)
      | Some names \<Rightarrow> (Inr names, s))"

definition os_path_getsize :: "pystr \<Rightarrow> nat act" where
  "os_path_getsize p s =
     (case files s p of
        None \<Rightarrow> (Inl (OSError, lit ''No such file or directory''), s)
      | Some sz \<Rightarrow> (Inr sz, s))"

text \<open>\<open>open(p, 'rb')\<close>; the file object is identified with its path.\<close>

definition open_rb :: "pystr \<Rightarrow> pystr act" where
  "open_rb p s =
     (case files s p of
        None \<Rightarrow> (Inl (OSError, lit ''No such file or directory''), s)
      | Some sz \<Rightarrow> (Inr p, s))"

section \<open>The handler \<open>download_and_send_video\<close> (lines 69-141)\<close>

definition assign_processing_msg :: "nat option \<Rightarrow> unit act" where
  "assign_processing_msg v s = (Inr (), s\<lparr>processing_msg := v\<rparr>)"

text \<open>
  \<open>if processing_msg: await processing_msg.delete()\<close>; a \<open>Message\<close> object is truthy, so
  the test is whether the variable has been assigned a message.
\<close>

definition delete_processing_msg :: "exn option \<Rightarrow> unit act" where
  "delete_processing_msg answer s =
     (case processing_msg s of
        None \<Rightarrow> (Inr (), s)
      | Some m \<Rightarrow> call (DeleteMessage m) (returned answer) s)"

text \<open>Lines 108-123: the size test and the two ways of sending.\<close>

definition send_file :: "world \<Rightarrow> info_dict \<Rightarrow> pystr \<Rightarrow> unit act" where
  "send_file w info downloaded_path =
     act_bind (call (ReplyChatAction (lit ''upload_video'')) (returned (w_upload_action w))) (\<lambda>_.
     act_bind (os_path_getsize downloaded_path) (\<lambda>sz.
       if sz < 2000 * 1024 * 1024 then
         act_bind (open_rb downloaded_path) (\<lambda>video_file.
           call (ReplyVideo video_file (video_caption info) True 60 60)
             (returned (w_reply_video w)))
       else
         act_bind (open_rb downloaded_path) (\<lambda>doc_file.
           call (ReplyDocument doc_file document_caption)
             (returned (w_reply_document w)))))"

text \<open>Lines 81-126: the body of the \<open>with\<close> block.\<close>

definition with_body :: "world \<Rightarrow> pyval \<Rightarrow> pystr \<Rightarrow> unit act" where
  "with_body w url tmp_dir =
     act_bind (call (YoutubeDL (os_path_join tmp_dir (lit ''%(title)s.%(ext)s'')))
                 (returned (w_ydl_init w))) (\<lambda>_.
     act_bind (call (ReplyChatAction (lit ''typing'')) (returned (w_typing_action w))) (\<lambda>_.
     act_bind (call (ExtractInfo url) (w_extract_info w)) (\<lambda>info.
     act_bind (act_lift (progress_text info)) (\<lambda>text.
     act_bind (call (ReplyText text) (w_notify_reply w)) (\<lambda>m.
     act_bind (assign_processing_msg (Some m)) (\<lambda>_.
     act_bind (ydl_download w url tmp_dir) (\<lambda>_.
     act_bind (os_listdir tmp_dir) (\<lambda>names.
       case filter (\<lambda>f. suffix (lit ''.mp4'') f) names of
         [] \<Rightarrow> act_raise (PlainException, lit ''No video file found after download'')
       | first # others \<Rightarrow>
           act_bind (send_file w info (os_path_join tmp_dir first)) (\<lambda>_.
           delete_processing_msg (w_delete w))))))))))"

text \<open>Lines 128-131.\<close>

definition on_DownloadError :: "world \<Rightarrow> exn \<Rightarrow> unit act" where
  "on_DownloadError w e =
     act_bind (call (LogError (10060 # lit '' Download failed: '' @ snd e)) (Inr ())) (\<lambda>_.
     call (ReplyText download_failed_text) (returned (w_download_failed_reply w)))"

text \<open>Lines 133-141.\<close>

definition on_Exception :: "world \<Rightarrow> exn \<Rightarrow> unit act" where
  "on_Exception w e =
     act_bind (call (LogError (lit ''Unexpected error: '' @ snd e)) (Inr ())) (\<lambda>_.
     act_bind (call (ReplyText unexpected_text) (returned (w_unexpected_reply w))) (\<lambda>_.
     try_pass (delete_processing_msg (w_delete_in_handler w))))"

definition download_and_send_video :: "(pystr \<Rightarrow> pystr) \<Rightarrow> world \<Rightarrow> pyval \<Rightarrow> unit act" where
  "download_and_send_video lower w url =
     (if \<not> is_supported_url lower url then
        call (ReplyText unsupported_text) (returned (w_reject_reply w))
      else
        act_bind (assign_processing_msg None) (\<lambda>_.
        try_except (with_TemporaryDirectory w (with_body w url))
          (\<lambda>e. if is_DownloadError e then on_DownloadError w e
                else if is_Exception e then on_Exception w e
                else act_raise e)))"

text \<open>
  The part of the \<open>with\<close> body that follows the progress message (lines 92-126, from the
  assignment to \<open>processing_msg\<close> on), named so that statements about a run can speak of
  what happens after the message was sent; \<open>with_body\<close> is its first five calls followed
  by this.
\<close>

definition after_notify :: "world \<Rightarrow> pyval \<Rightarrow> pystr \<Rightarrow> info_dict \<Rightarrow> nat \<Rightarrow> unit act" where
  "after_notify w url tmp_dir info m =
     act_bind (assign_processing_msg (Some m)) (\<lambda>_.
     act_bind (ydl_download w url tmp_dir) (\<lambda>_.
     act_bind (os_listdir tmp_dir) (\<lambda>names.
       case filter (\<lambda>f. suffix (lit ''.mp4'') f) names of
         [] \<Rightarrow> act_raise (PlainException, lit ''No video file found after download'')
       | first # others \<Rightarrow>
           act_bind (send_file w info (os_path_join tmp_dir first)) (\<lambda>_.
           delete_processing_msg (w_delete w)))))"

section \<open>Concrete runs\<close>

definition initial :: state where
  "initial = \<lparr>trace = [], dirs = Map.empty, files = Map.empty, processing_msg = None\<rparr>"

text \<open>
  A world in which every collaborator answers: the probe returns title \<open>Sample\<close> and
  duration 125 seconds, the download leaves a subtitle file and a 50 MiB video.
\<close>

definition sample_dir :: pystr where
  "sample_dir = lit ''/tmp/tmpq1''"

definition sample_info :: info_dict where
  "sample_info = [''title'' \<mapsto> Str (lit ''Sample''), ''duration'' \<mapsto> IntVal 125]"

definition sample_world :: world where
  "sample_world =
     \<lparr>w_reject_reply = None,
      w_mkdtemp = Inr sample_dir,
      w_ydl_init = None,
      w_typing_action = None,
      w_extract_info = Inr sample_info,
      w_notify_reply = Inr 7,
      w_download_writes = [(lit ''Sample.vtt'', 900), (lit ''Sample.mp4'', 50 * 1024 * 1024)],
      w_download = None,
      w_upload_action = None,
      w_reply_video = None,
      w_reply_document = None,
      w_delete = None,
      w_download_failed_reply = None,
      w_unexpected_reply = None,
      w_delete_in_handler = None\<rparr>"

definition sample_url :: pyval where
  "sample_url = Str (lit ''https://youtu.be/abc123'')"

text \<open>The probe reports a private video.\<close>

definition private_world :: world where
  "private_world = sample_world\<lparr>w_extract_info := Inl (DownloadError, lit ''ERROR: Private video'')\<rparr>"

text \<open>Sending the progress message fails.\<close>

definition notify_fails_world :: world where
  "notify_fails_world = sample_world\<lparr>w_notify_reply := Inl (TelegramError, lit ''Timed out'')\<rparr>"

text \<open>The download itself fails, after the progress message was sent.\<close>

definition fetch_fails_world :: world where
  "fetch_fails_world = sample_world\<lparr>w_download := Some (DownloadError, lit ''ERROR: HTTP Error 403'')\<rparr>"

text \<open>Deleting the progress message after a successful delivery fails.\<close>

definition delete_fails_world :: world where
  "delete_fails_world = sample_world\<lparr>w_delete := Some (TelegramError, lit ''Message to delete not found'')\<rparr>"

text \<open>The download leaves files, none of them named \<open>*.mp4\<close>.\<close>

definition no_mp4_world :: world where
  "no_mp4_world =
     sample_world\<lparr>w_download_writes := [(lit ''Sample.vtt'', 900), (lit ''Sample.webm'', 1000)]\<rparr>"

text \<open>The download leaves a file of exactly 2000 * 1024 * 1024 bytes.\<close>

definition large_world :: world where
  "large_world = sample_world\<lparr>w_download_writes := [(lit ''Sample.mp4'', 2000 * 1024 * 1024)]\<rparr>"

text \<open>The download leaves two files named \<open>*.mp4\<close>, after a subtitle file.\<close>

definition two_mp4_world :: world where
  "two_mp4_world =
     sample_world\<lparr>w_download_writes :=
       [(lit ''Sample.vtt'', 900), (lit ''Sample.f137.mp4'', 4000),
        (lit ''Sample.mp4'', 50 * 1024 * 1024)]\<rparr>"

text \<open>The probe returns metadata without a \<open>title\<close> key, without a \<open>duration\<close> key, or without both.\<close>

definition no_fields_world :: world where
  "no_fields_world = sample_world\<lparr>w_extract_info := Inr Map.empty\<rparr>"

definition no_title_world :: world where
  "no_title_world = sample_world\<lparr>w_extract_info := Inr [''duration'' \<mapsto> IntVal 125]\<rparr>"

definition no_duration_world :: world where
  "no_duration_world = sample_world\<lparr>w_extract_info := Inr [''title'' \<mapsto> Str (lit ''Sample'')]\<rparr>"

section \<open>Observations on a run\<close>

text \<open>The files handed to the transport, in order.\<close>

fun upload_path :: "event \<Rightarrow> pystr option" where
  "upload_path (ReplyVideo video caption streaming read_timeout write_timeout) = Some video"
| "upload_path (ReplyDocument document caption) = Some document"
| "upload_path ev = None"

definition uploads :: "event list \<Rightarrow> pystr list" where
  "uploads tr = List.map_filter upload_path tr"

text \<open>The upload calls themselves, with all their arguments.\<close>

definition upload_calls :: "event list \<Rightarrow> event list" where
  "upload_calls tr = filter (\<lambda>ev. upload_path ev \<noteq> None) tr"

text \<open>The read and write timeouts an upload call passes, if it passes them.\<close>

fun timeouts :: "event \<Rightarrow> (nat \<times> nat) option" where
  "timeouts (ReplyVideo video caption streaming read_timeout write_timeout) =
     Some (read_timeout, write_timeout)"
| "timeouts ev = None"

text \<open>
  Invariants of the temporary directory \<open>d\<close>: \<open>tidy\<close> says that every file under \<open>d\<close> is
  listed in \<open>d\<close>; \<open>gone\<close> that neither \<open>d\<close> nor a file under it exists. \<open>preserves P m\<close>
  says that the action \<open>m\<close> keeps \<open>P\<close>, whether it returns or raises; \<open>frame P\<close> that \<open>P\<close>
  survives a recorded call and an assignment to \<open>processing_msg\<close>.
\<close>

definition tidy :: "pystr \<Rightarrow> state \<Rightarrow> bool" where
  "tidy d s =
     (\<forall>name. files s (os_path_join d name) \<noteq> None \<longrightarrow>
        os_path_join d name \<in> os_path_join d ` set (listing s d))"

definition gone :: "pystr \<Rightarrow> state \<Rightarrow> bool" where
  "gone d s = (dirs s d = None \<and> (\<forall>name. files s (os_path_join d name) = None))"

definition preserves :: "(state \<Rightarrow> bool) \<Rightarrow> 'a act \<Rightarrow> bool" where
  "preserves P m = (\<forall>s. P s \<longrightarrow> P (snd (m s)))"

definition frame :: "(state \<Rightarrow> bool) \<Rightarrow> bool" where
  "frame P =
     (\<forall>s ev v. P s \<longrightarrow> P (s\<lparr>trace := trace s @ [ev]\<rparr>) \<and> P (s\<lparr>processing_msg := v\<rparr>))"

section \<open>Helper lemmas\<close>

lemma lit_append: "lit xs @ lit ys = lit (xs @ ys)"
  by (simp add: lit_def)

lemma int_str_0: "int_str 0 = [48]"
  by (simp add: int_str_def nat_digits.simps)

lemmas handler_defs =
  download_and_send_video_def with_body_def send_file_def on_DownloadError_def on_Exception_def
  delete_processing_msg_def assign_processing_msg_def with_TemporaryDirectory_def
  TemporaryDirectory_enter_def TemporaryDirectory_exit_def try_except_def try_pass_def
  act_bind_def act_raise_def act_lift_def call_def returned_def
  ydl_download_def os_listdir_def os_path_getsize_def open_rb_def listing_def
  is_DownloadError_def is_Exception_def

lemmas classifier_defs =
  is_supported_url_def is_supported_url_try_def py_lower_def SUPPORTED_DOMAINS_def

lemmas text_defs =
  progress_text_def video_caption_def document_caption_def download_failed_text_def
  unexpected_text_def unsupported_text_def dict_get_def py_floordiv60_def py_format_def
  int_str_def nat_digits.simps os_path_join_def

lemma sample_supported: "is_supported_url ascii_lower sample_url"
  by (simp add: classifier_defs sample_url_def lit_def ascii_lower_def sublist_code)

lemma sample_progress:
  "progress_text sample_info =
     Inr (9203 # lit '' Downloading: Sample'' @ [10] @ 9201 # lit '' Duration: 2 minutes'')"
  by (simp add: text_defs sample_info_def lit_def)

subsection \<open>The upload observation\<close>

lemma uploads_append: "uploads (xs @ ys) = uploads xs @ uploads ys"
  by (simp add: uploads_def map_filter_def)

lemma uploads_simps:
  "uploads [] = []"
  "uploads (ReplyVideo p c ss r wt # tr) = p # uploads tr"
  "uploads (ReplyDocument p c # tr) = p # uploads tr"
  "uploads (ReplyText x # tr) = uploads tr"
  "uploads (ReplyChatAction x # tr) = uploads tr"
  "uploads (DeleteMessage k # tr) = uploads tr"
  "uploads (LogError x # tr) = uploads tr"
  "uploads (TempDirCreated x # tr) = uploads tr"
  "uploads (TempDirRemoved x # tr) = uploads tr"
  "uploads (YoutubeDL x # tr) = uploads tr"
  "uploads (ExtractInfo u # tr) = uploads tr"
  "uploads (Download u # tr) = uploads tr"
  by (simp_all add: uploads_def map_filter_def)

lemma upload_calls_append: "upload_calls (xs @ ys) = upload_calls xs @ upload_calls ys"
  by (simp add: upload_calls_def)

lemma upload_calls_simps:
  "upload_calls [] = []"
  "upload_calls (ReplyVideo p c ss r wt # tr) = ReplyVideo p c ss r wt # upload_calls tr"
  "upload_calls (ReplyDocument p c # tr) = ReplyDocument p c # upload_calls tr"
  "upload_calls (ReplyText x # tr) = upload_calls tr"
  "upload_calls (ReplyChatAction x # tr) = upload_calls tr"
  "upload_calls (DeleteMessage k # tr) = upload_calls tr"
  "upload_calls (LogError x # tr) = upload_calls tr"
  "upload_calls (TempDirCreated x # tr) = upload_calls tr"
  "upload_calls (TempDirRemoved x # tr) = upload_calls tr"
  "upload_calls (YoutubeDL x # tr) = upload_calls tr"
  "upload_calls (ExtractInfo u # tr) = upload_calls tr"
  "upload_calls (Download u # tr) = upload_calls tr"
  by (simp_all add: upload_calls_def)

subsection \<open>Writing into and emptying a directory\<close>

lemma fold_remove:
  "fold (\<lambda>name m. m(os_path_join d name := None)) names m p =
     (if p \<in> os_path_join d ` set names then None else m p)"
  by (induction names arbitrary: m) auto

lemma fold_write_other:
  "p \<notin> os_path_join d ` fst ` set writes \<Longrightarrow>
     fold (\<lambda>(name, sz) m. m(os_path_join d name \<mapsto> sz)) writes m p = m p"
  by (induction writes arbitrary: m) auto

lemma fold_write:
  "fold (\<lambda>(name, sz) m. m(os_path_join d name \<mapsto> sz)) writes m p \<noteq> None \<Longrightarrow>
     p \<in> os_path_join d ` fst ` set writes \<or> m p \<noteq> None"
  using fold_write_other [of p d writes m] by metis

lemma fold_write_keeps:
  "m p \<noteq> None \<Longrightarrow> fold (\<lambda>(name, sz) m. m(os_path_join d name \<mapsto> sz)) writes m p \<noteq> None"
  by (induction writes arbitrary: m) auto

lemma fold_write_some:
  "name \<in> fst ` set writes \<Longrightarrow>
     fold (\<lambda>(name, sz) m. m(os_path_join d name \<mapsto> sz)) writes m (os_path_join d name) \<noteq> None"
proof (induction writes arbitrary: m)
  case Nil
  then show ?case by simp
next
  case (Cons a writes)
  obtain n z where a: "a = (n, z)" by (cases a)
  show ?case
  proof (cases "name = n")
    case True
    have "(m(os_path_join d n \<mapsto> z)) (os_path_join d n) \<noteq> None" by simp
    then have "fold (\<lambda>(name, sz) m. m(os_path_join d name \<mapsto> sz)) writes
                 (m(os_path_join d n \<mapsto> z)) (os_path_join d n) \<noteq> None"
      by (rule fold_write_keeps)
    with True a show ?thesis by (simp del: fun_upd_apply)
  next
    case False
    with Cons.prems a have "name \<in> fst ` set writes" by auto
    then have "fold (\<lambda>(name, sz) m. m(os_path_join d name \<mapsto> sz)) writes
                 (m(os_path_join d n \<mapsto> z)) (os_path_join d name) \<noteq> None"
      by (rule Cons.IH)
    with a show ?thesis by (simp del: fun_upd_apply)
  qed
qed

lemma fold_write_lookup:
  "distinct (map (\<lambda>(name, sz). os_path_join d name) writes) \<Longrightarrow> (name, n) \<in> set writes \<Longrightarrow>
     fold (\<lambda>(name, sz) m. m(os_path_join d name \<mapsto> sz)) writes m (os_path_join d name) = Some n"
proof (induction writes arbitrary: m)
  case Nil
  then show ?case by simp
next
  case (Cons a writes)
  obtain a1 z where a: "a = (a1, z)" by (cases a)
  show ?case
  proof (cases "(name, n) = a")
    case True
    with Cons.prems a have "os_path_join d a1 \<notin> os_path_join d ` fst ` set writes"
      by (auto simp: image_iff case_prod_beta)
    then have "fold (\<lambda>(name, sz) m. m(os_path_join d name \<mapsto> sz)) writes
                 (m(os_path_join d a1 \<mapsto> z)) (os_path_join d a1)
               = (m(os_path_join d a1 \<mapsto> z)) (os_path_join d a1)"
      by (rule fold_write_other)
    also have "\<dots> = Some z" by simp
    finally show ?thesis using True a by (simp del: fun_upd_apply)
  next
    case False
    with Cons.prems have "(name, n) \<in> set writes"
      and "distinct (map (\<lambda>(name, sz). os_path_join d name) writes)" by auto
    then have "fold (\<lambda>(name, sz) m. m(os_path_join d name \<mapsto> sz)) writes
                 (m(os_path_join d a1 \<mapsto> z)) (os_path_join d name) = Some n"
      using Cons.IH by blast
    with a show ?thesis by (simp del: fun_upd_apply)
  qed
qed

lemma listing_download:
  "listing (snd (ydl_download w url d s)) d = listing s d @ map fst (w_download_writes w)"
  by (simp add: ydl_download_def listing_def)

lemma files_download:
  "files (snd (ydl_download w url d s)) =
     fold (\<lambda>(name, sz) m. m(os_path_join d name \<mapsto> sz)) (w_download_writes w) (files s)"
  by (simp add: ydl_download_def)

subsection \<open>What each step of the handler preserves\<close>

lemma preserves_bind:
  assumes "preserves P m" and "\<And>x. preserves P (f x)"
  shows "preserves P (act_bind m f)"
  unfolding preserves_def
proof (intro allI impI)
  fix s assume "P s"
  with assms(1) have after_m: "P (snd (m s))" by (simp add: preserves_def)
  show "P (snd (act_bind m f s))"
  proof (cases "m s")
    case (Pair r s')
    with after_m have "P s'" by simp
    with assms(2) Pair show ?thesis
      by (cases r) (simp_all add: act_bind_def preserves_def)
  qed
qed

lemma preserves_call: "frame P \<Longrightarrow> preserves P (call ev r)"
  by (simp add: preserves_def frame_def call_def)

lemma preserves_assign: "frame P \<Longrightarrow> preserves P (assign_processing_msg v)"
  by (simp add: preserves_def frame_def assign_processing_msg_def)

lemma preserves_raise: "preserves P (act_raise e)"
  by (simp add: preserves_def act_raise_def)

lemma preserves_lift: "preserves P (act_lift r)"
  by (simp add: preserves_def act_lift_def)

lemma preserves_listdir: "preserves P (os_listdir d)"
  by (simp add: preserves_def os_listdir_def split: option.splits)

lemma preserves_getsize: "preserves P (os_path_getsize p)"
  by (simp add: preserves_def os_path_getsize_def split: option.splits)

lemma preserves_open: "preserves P (open_rb p)"
  by (simp add: preserves_def open_rb_def split: option.splits)

lemma preserves_delete: "frame P \<Longrightarrow> preserves P (delete_processing_msg r)"
  by (simp add: preserves_def frame_def delete_processing_msg_def call_def split: option.splits)

lemma preserves_try_pass: "preserves P m \<Longrightarrow> preserves P (try_pass m)"
  by (simp add: preserves_def try_pass_def split: prod.splits) (metis snd_conv)

lemma preserves_send_file: "frame P \<Longrightarrow> preserves P (send_file w info p)"
  unfolding send_file_def
  by (intro preserves_bind preserves_call preserves_getsize)
     (simp_all add: preserves_bind preserves_call preserves_open)

lemma preserves_on_DownloadError: "frame P \<Longrightarrow> preserves P (on_DownloadError w e)"
  unfolding on_DownloadError_def by (intro preserves_bind preserves_call)

lemma preserves_on_Exception: "frame P \<Longrightarrow> preserves P (on_Exception w e)"
  unfolding on_Exception_def
  by (intro preserves_bind preserves_call preserves_try_pass preserves_delete)

lemma preserves_with_body:
  assumes "frame P" and "preserves P (ydl_download w url d)"
  shows "preserves P (with_body w url d)"
  unfolding with_body_def
  by (intro preserves_bind preserves_call preserves_lift preserves_assign preserves_listdir assms)
     (auto split: list.splits intro!: preserves_raise preserves_bind preserves_send_file
        preserves_delete assms)

lemma frame_tidy: "frame (tidy d)"
  by (simp add: frame_def tidy_def listing_def)

lemma frame_gone: "frame (gone d)"
  by (simp add: frame_def gone_def)

lemma frame_recorded: "frame (\<lambda>s. ev \<in> set (trace s))"
  by (simp add: frame_def)

lemma tidy_download: "preserves (tidy d) (ydl_download w url d)"
  unfolding preserves_def tidy_def
proof (intro allI impI)
  fix s name
  assume inv: "\<forall>name. files s (os_path_join d name) \<noteq> None \<longrightarrow>
            os_path_join d name \<in> os_path_join d ` set (listing s d)"
    and "files (snd (ydl_download w url d s)) (os_path_join d name) \<noteq> None"
  then have "os_path_join d name \<in> os_path_join d ` fst ` set (w_download_writes w)
             \<or> files s (os_path_join d name) \<noteq> None"
    using fold_write [of d "w_download_writes w" "files s" "os_path_join d name"]
    by (simp add: files_download)
  with inv have "os_path_join d name \<in> os_path_join d ` fst ` set (w_download_writes w)
             \<or> os_path_join d name \<in> os_path_join d ` set (listing s d)"
    by blast
  then show "os_path_join d name \<in> os_path_join d ` set (listing (snd (ydl_download w url d s)) d)"
    by (auto simp: listing_download)
qed

lemma recorded_download: "preserves (\<lambda>s. ev \<in> set (trace s)) (ydl_download w url d)"
  by (simp add: preserves_def ydl_download_def)

lemma exit_gone: "tidy d s \<Longrightarrow> gone d (TemporaryDirectory_exit d s)"
  by (auto simp: tidy_def gone_def TemporaryDirectory_exit_def fold_remove)

lemma enter_tidy:
  assumes "w_mkdtemp w = Inr d" and "\<forall>name. files s (os_path_join d name) = None"
  shows "TemporaryDirectory_enter w s =
           (Inr d, s\<lparr>trace := trace s @ [TempDirCreated d], dirs := (dirs s)(d \<mapsto> [])\<rparr>)"
    and "tidy d (s\<lparr>trace := trace s @ [TempDirCreated d], dirs := (dirs s)(d \<mapsto> [])\<rparr>)"
  using assms by (simp_all add: TemporaryDirectory_enter_def tidy_def)

lemma with_gone:
  assumes "w_mkdtemp w = Inr d" and "\<forall>name. files s (os_path_join d name) = None"
  shows "gone d (snd (with_TemporaryDirectory w (with_body w url) s))"
proof -
  let ?s1 = "s\<lparr>trace := trace s @ [TempDirCreated d], dirs := (dirs s)(d \<mapsto> [])\<rparr>"
  have "tidy d (snd (with_body w url d ?s1))"
    using preserves_with_body [OF frame_tidy tidy_download, of d w url] enter_tidy(2) [OF assms]
    by (simp add: preserves_def)
  then have "gone d (TemporaryDirectory_exit d (snd (with_body w url d ?s1)))"
    by (rule exit_gone)
  then show ?thesis
    using enter_tidy(1) [OF assms]
    by (simp add: with_TemporaryDirectory_def case_prod_beta)
qed

lemma with_recorded:
  assumes "w_mkdtemp w = Inr d"
  shows "TempDirCreated d \<in> set (trace (snd (with_TemporaryDirectory w (with_body w url) s)))"
proof -
  let ?s1 = "s\<lparr>trace := trace s @ [TempDirCreated d], dirs := (dirs s)(d \<mapsto> [])\<rparr>"
  have "TempDirCreated d \<in> set (trace (snd (with_body w url d ?s1)))"
    using preserves_with_body [OF frame_recorded recorded_download, of "TempDirCreated d" w url d]
    by (simp add: preserves_def)
  then show ?thesis
    using assms
    by (simp add: with_TemporaryDirectory_def TemporaryDirectory_enter_def
          TemporaryDirectory_exit_def case_prod_beta)
qed

subsection \<open>What a run keeps once the progress message is sent\<close>

lemma with_body_after_notify:
  "with_body w url d =
     act_bind (call (YoutubeDL (os_path_join d (lit ''%(title)s.%(ext)s'')))
                 (returned (w_ydl_init w))) (\<lambda>_.
     act_bind (call (ReplyChatAction (lit ''typing'')) (returned (w_typing_action w))) (\<lambda>_.
     act_bind (call (ExtractInfo url) (w_extract_info w)) (\<lambda>info.
     act_bind (act_lift (progress_text info)) (\<lambda>text.
     act_bind (call (ReplyText text) (w_notify_reply w)) (\<lambda>m.
     after_notify w url d info m)))))"
  by (simp add: with_body_def after_notify_def)

lemma preserves_after_notify:
  assumes "frame P" and "preserves P (ydl_download w url d)"
  shows "preserves P (after_notify w url d info m)"
  unfolding after_notify_def
  by (intro preserves_bind preserves_assign preserves_listdir assms)
     (auto split: list.splits intro!: preserves_raise preserves_bind preserves_send_file
        preserves_delete assms)

lemma frame_prefix: "frame (\<lambda>s. prefix xs (trace s))"
  by (simp add: frame_def)

lemma prefix_download: "preserves (\<lambda>s. prefix xs (trace s)) (ydl_download w url d)"
  by (simp add: preserves_def ydl_download_def)

lemma with_body_notified:
  assumes "w_ydl_init w = None" and "w_typing_action w = None"
    and "w_extract_info w = Inr info" and "progress_text info = Inr text"
  shows "prefix (trace s @
                   [YoutubeDL (os_path_join d (lit ''%(title)s.%(ext)s'')),
                    ReplyChatAction (lit ''typing''),
                    ExtractInfo url,
                    ReplyText text])
           (trace (snd (with_body w url d s)))"
proof -
  let ?xs = "trace s @
                   [YoutubeDL (os_path_join d (lit ''%(title)s.%(ext)s'')),
                    ReplyChatAction (lit ''typing''),
                    ExtractInfo url,
                    ReplyText text]"
  let ?s5 = "s\<lparr>trace := ?xs\<rparr>"
  have rest: "prefix ?xs (trace (snd (after_notify w url d info m ?s5)))" for m
    using preserves_after_notify [OF frame_prefix prefix_download, of ?xs w url d info m]
    by (simp add: preserves_def)
  show ?thesis
  proof (cases "w_notify_reply w")
    case (Inl e)
    with assms show ?thesis
      by (simp add: with_body_after_notify act_bind_def call_def returned_def act_lift_def)
  next
    case (Inr m)
    with assms rest [of m] show ?thesis
      by (simp add: with_body_after_notify act_bind_def call_def returned_def act_lift_def)
  qed
qed

lemma run_keeps:
  assumes "frame P" and "is_supported_url lower url"
    and "\<And>s'. P s' \<Longrightarrow> P (TemporaryDirectory_exit d s')"
    and "w_mkdtemp w = Inr d"
    and "P (snd (with_body w url d
                   (s\<lparr>processing_msg := None, trace := trace s @ [TempDirCreated d],
                      dirs := (dirs s)(d \<mapsto> [])\<rparr>)))"
  shows "P (snd (download_and_send_video lower w url s))"
proof -
  let ?s1 = "s\<lparr>processing_msg := None, trace := trace s @ [TempDirCreated d],
                      dirs := (dirs s)(d \<mapsto> [])\<rparr>"
  obtain r s2 where body: "with_body w url d ?s1 = (r, s2)"
    by (cases "with_body w url d ?s1")
  with assms(5) have "P s2" by simp
  then have s3: "P (TemporaryDirectory_exit d s2)" by (rule assms(3))
  have "P (snd ((if is_DownloadError e then on_DownloadError w e
             else if is_Exception e then on_Exception w e else act_raise e)
            (TemporaryDirectory_exit d s2)))" for e
    using preserves_on_DownloadError [OF assms(1), of w e] preserves_on_Exception [OF assms(1), of w e]
      preserves_raise [of P e] s3
    by (auto simp: preserves_def)
  with s3 body assms(2,4) show ?thesis
    by (cases r)
       (simp_all add: download_and_send_video_def act_bind_def assign_processing_msg_def
          try_except_def with_TemporaryDirectory_def TemporaryDirectory_enter_def)
qed

lemma run_notified:
  assumes "is_supported_url lower url"
    and "w_mkdtemp w = Inr d" and "w_ydl_init w = None" and "w_typing_action w = None"
    and "w_extract_info w = Inr info" and "progress_text info = Inr text"
  shows "prefix (trace s @
                   [TempDirCreated d,
                    YoutubeDL (os_path_join d (lit ''%(title)s.%(ext)s'')),
                    ReplyChatAction (lit ''typing''),
                    ExtractInfo url,
                    ReplyText text])
           (trace (snd (download_and_send_video lower w url s)))"
proof (rule run_keeps [OF frame_prefix assms(1) _ assms(2)])
  fix s' :: state
  assume "prefix (trace s @
                   [TempDirCreated d,
                    YoutubeDL (os_path_join d (lit ''%(title)s.%(ext)s'')),
                    ReplyChatAction (lit ''typing''),
                    ExtractInfo url,
                    ReplyText text]) (trace s')"
  then show "prefix (trace s @
                   [TempDirCreated d,
                    YoutubeDL (os_path_join d (lit ''%(title)s.%(ext)s'')),
                    ReplyChatAction (lit ''typing''),
                    ExtractInfo url,
                    ReplyText text]) (trace (TemporaryDirectory_exit d s'))"
    by (simp add: TemporaryDirectory_exit_def)
next
  show "prefix (trace s @
                   [TempDirCreated d,
                    YoutubeDL (os_path_join d (lit ''%(title)s.%(ext)s'')),
                    ReplyChatAction (lit ''typing''),
                    ExtractInfo url,
                    ReplyText text])
          (trace (snd (with_body w url d
                   (s\<lparr>processing_msg := None, trace := trace s @ [TempDirCreated d],
                      dirs := (dirs s)(d \<mapsto> [])\<rparr>))))"
    using with_body_notified [OF assms(3-6), of
        "s\<lparr>processing_msg := None, trace := trace s @ [TempDirCreated d],
                      dirs := (dirs s)(d \<mapsto> [])\<rparr>" d url]
    by simp
qed

lemma progress_text_defaults:
  "info ''title'' = None \<Longrightarrow> info ''duration'' = None \<Longrightarrow>
     progress_text info =
       Inr (9203 # lit '' Downloading: video'' @ [10] @ 9201 # lit '' Duration: 0 minutes'')"
  "info ''title'' = None \<Longrightarrow> info ''duration'' = Some (IntVal k) \<Longrightarrow>
     progress_text info =
       Inr (9203 # lit '' Downloading: video'' @ [10]
            @ 9201 # lit '' Duration: '' @ int_str (k div 60) @ lit '' minutes'')"
  "info ''title'' = Some (Str t) \<Longrightarrow> info ''duration'' = None \<Longrightarrow>
     progress_text info =
       Inr (9203 # lit '' Downloading: '' @ t @ [10] @ 9201 # lit '' Duration: 0 minutes'')"
  by (simp_all add: progress_text_def dict_get_def py_floordiv60_def py_format_def int_str_0 lit_def)

section \<open>The URL classifier\<close>

text \<open>
  Claim C2. For every input, \<open>is_supported_url\<close> is true exactly when the input is a string
  whose lower-cased form contains one of the seven fragments \<open>youtube.com\<close>, \<open>youtu.be\<close>,
  \<open>facebook.com\<close>, \<open>fb.watch\<close>, \<open>instagram.com\<close>, \<open>twitter.com\<close>, \<open>x.com\<close> as a
  contiguous substring. On every other input, including one on which the body of the
  \<open>try\<close> raises (a value that is not a string), the result is \<open>False\<close>: the function
  returns a boolean on every input and raises on none.
\<close>

theorem is_supported_url_iff_fragment:
  "is_supported_url lower url \<longleftrightarrow>
     (\<exists>u. url = Str u \<and>
        (\<exists>domain \<in> {lit ''youtube.com'', lit ''youtu.be'', lit ''facebook.com'', lit ''fb.watch'',
                      lit ''instagram.com'', lit ''twitter.com'', lit ''x.com''}.
           \<exists>ps ss. lower u = ps @ domain @ ss))"
  by (cases url) (simp_all add: classifier_defs sublist_def)

theorem is_supported_url_iff_fragment_witness:
  "is_supported_url ascii_lower (Str (lit ''https://X.com/a''))
   \<and> \<not> is_supported_url ascii_lower (Str (lit ''not a url''))
   \<and> \<not> is_supported_url ascii_lower NoneVal"
  using is_supported_url_iff_fragment [of ascii_lower "Str (lit ''https://X.com/a'')"]
    is_supported_url_iff_fragment [of ascii_lower NoneVal]
  by (simp add: classifier_defs lit_def ascii_lower_def sublist_code)

section \<open>Delivery\<close>

text \<open>
  Claim C1. In every run that reaches the delivery (probe, progress message, download and
  upload action returned; the directory lists the distinct files the download left), the
  file chosen for delivery has some size \<open>n\<close>, and the run makes exactly one upload call:
  when \<open>n < 2000 * 1024 * 1024\<close> it is \<open>reply_video\<close> with the caption made of the check
  mark, a space and the title; when \<open>n \<ge> 2000 * 1024 * 1024\<close>, equality included, it is
  \<open>reply_document\<close> with the caption "File too large for streaming, sent as document"
  after the folder sign.
\<close>

theorem delivery_by_size:
  assumes "is_supported_url lower url"
    and "w_mkdtemp w = Inr d" and "w_ydl_init w = None" and "w_typing_action w = None"
    and "w_extract_info w = Inr info" and "progress_text info = Inr text"
    and "w_notify_reply w = Inr m" and "w_download w = None"
    and "filter (\<lambda>f. suffix (lit ''.mp4'') f) (map fst (w_download_writes w)) = first # others"
    and "w_upload_action w = None"
    and "distinct (map (\<lambda>(name, sz). os_path_join d name) (w_download_writes w))"
    and "(first, n) \<in> set (w_download_writes w)"
  shows "upload_calls (trace (snd (download_and_send_video lower w url s))) =
           upload_calls (trace s) @
             [if n < 2000 * 1024 * 1024
              then ReplyVideo (os_path_join d first)
                     (9989 # lit '' ''
                        @ py_format (dict_get info ''title'' (Str (lit ''Downloaded Video''))))
                     True 60 60
              else ReplyDocument (os_path_join d first)
                     (128193 # lit '' File too large for streaming, sent as document'')]"
proof -
  have sz: "fold (\<lambda>(name, sz) m. m(os_path_join d name \<mapsto> sz)) (w_download_writes w) (files s)
       (os_path_join d first) = Some n"
    using assms(11,12) by (rule fold_write_lookup)
  show ?thesis
  proof (cases "n < 2000 * 1024 * 1024")
    case True
    with assms(1-10) sz show ?thesis
      by (simp add: handler_defs video_caption_def upload_calls_append upload_calls_simps
            split: option.splits)
  next
    case False
    with assms(1-10) sz show ?thesis
      by (simp add: handler_defs document_caption_def upload_calls_append upload_calls_simps
            split: option.splits)
  qed
qed

theorem delivery_by_size_witness:
  "(lit ''Sample.mp4'', 50 * 1024 * 1024) \<in> set (w_download_writes sample_world)
   \<and> upload_calls (trace (snd (download_and_send_video ascii_lower sample_world sample_url initial))) =
       [ReplyVideo (lit ''/tmp/tmpq1/Sample.mp4'') (9989 # lit '' Sample'') True 60 60]
   \<and> (lit ''Sample.mp4'', 2000 * 1024 * 1024) \<in> set (w_download_writes large_world)
   \<and> upload_calls (trace (snd (download_and_send_video ascii_lower large_world sample_url initial))) =
       [ReplyDocument (lit ''/tmp/tmpq1/Sample.mp4'')
          (128193 # lit '' File too large for streaming, sent as document'')]"
proof -
  have w: "w_mkdtemp sample_world = Inr sample_dir" "w_ydl_init sample_world = None"
    "w_typing_action sample_world = None" "w_extract_info sample_world = Inr sample_info"
    by (simp_all add: sample_world_def)
  have n: "w_notify_reply sample_world = Inr 7" "w_download sample_world = None"
    by (simp_all add: sample_world_def)
  have f: "filter (\<lambda>f. suffix (lit ''.mp4'') f) (map fst (w_download_writes sample_world))
             = [lit ''Sample.mp4'']"
    by (simp add: sample_world_def lit_def suffix_to_prefix)
  have u: "w_upload_action sample_world = None"
    by (simp add: sample_world_def)
  have d: "distinct (map (\<lambda>(name, sz). os_path_join sample_dir name) (w_download_writes sample_world))"
    by (simp add: sample_world_def sample_dir_def os_path_join_def lit_def suffix_to_prefix)
  have i: "(lit ''Sample.mp4'', 50 * 1024 * 1024) \<in> set (w_download_writes sample_world)"
    by (simp add: sample_world_def)
  have w': "w_mkdtemp large_world = Inr sample_dir" "w_ydl_init large_world = None"
    "w_typing_action large_world = None" "w_extract_info large_world = Inr sample_info"
    by (simp_all add: large_world_def sample_world_def)
  have n': "w_notify_reply large_world = Inr 7" "w_download large_world = None"
    by (simp_all add: large_world_def sample_world_def)
  have f': "filter (\<lambda>f. suffix (lit ''.mp4'') f) (map fst (w_download_writes large_world))
             = [lit ''Sample.mp4'']"
    by (simp add: large_world_def sample_world_def lit_def suffix_to_prefix)
  have u': "w_upload_action large_world = None"
    by (simp add: large_world_def sample_world_def)
  have d': "distinct (map (\<lambda>(name, sz). os_path_join sample_dir name) (w_download_writes large_world))"
    by (simp add: large_world_def sample_world_def)
  have i': "(lit ''Sample.mp4'', 2000 * 1024 * 1024) \<in> set (w_download_writes large_world)"
    by (simp add: large_world_def sample_world_def)
  show ?thesis
    using delivery_by_size [OF sample_supported w sample_progress n f u d i, of initial]
      delivery_by_size [OF sample_supported w' sample_progress n' f' u' d' i', of initial]
      i i'
    by (simp add: initial_def sample_dir_def sample_info_def os_path_join_def upload_calls_simps
          dict_get_def py_format_def lit_def suffix_to_prefix)
qed

text \<open>
  Claim C8, evaluated on the code. The download leaves a file of exactly
  2000 * 1024 * 1024 bytes: the handler sends it with \<open>reply_document\<close>, called with the
  document and the caption only, so the one upload call of the run passes no timeout.
\<close>

theorem document_upload_passes_no_timeout:
  "trace (snd (download_and_send_video ascii_lower large_world sample_url initial)) =
     [TempDirCreated sample_dir,
      YoutubeDL (lit ''/tmp/tmpq1/%(title)s.%(ext)s''),
      ReplyChatAction (lit ''typing''),
      ExtractInfo sample_url,
      ReplyText (9203 # lit '' Downloading: Sample'' @ [10] @ 9201 # lit '' Duration: 2 minutes''),
      Download sample_url,
      ReplyChatAction (lit ''upload_video''),
      ReplyDocument (lit ''/tmp/tmpq1/Sample.mp4'')
        (128193 # lit '' File too large for streaming, sent as document''),
      DeleteMessage 7,
      TempDirRemoved sample_dir]
   \<and> map timeouts
         (upload_calls
            (trace (snd (download_and_send_video ascii_lower large_world sample_url initial)))) =
       [None]"
  using sample_supported sample_progress
  by (simp add: handler_defs large_world_def sample_world_def initial_def sample_dir_def
        os_path_join_def document_caption_def upload_calls_simps lit_def suffix_to_prefix)

section \<open>The temporary directory\<close>

text \<open>
  Claim C3. In every run that creates its temporary directory \<open>d\<close> (the URL is supported
  and \<open>TemporaryDirectory()\<close> returns \<open>d\<close>, a new directory under which no file exists
  yet), whatever any later call answers (return, any exception in the probe, the
  notification, the download or the upload, or an exception outside \<open>Exception\<close>), the
  directory has been created and, when the handler is left, neither \<open>d\<close> nor any file under
  \<open>d\<close> exists.
\<close>

theorem temporary_directory_removed:
  assumes "is_supported_url lower url" and "w_mkdtemp w = Inr d"
    and "\<forall>name. files s (os_path_join d name) = None"
  shows "TempDirCreated d \<in> set (trace (snd (download_and_send_video lower w url s)))
         \<and> dirs (snd (download_and_send_video lower w url s)) d = None
         \<and> (\<forall>name. files (snd (download_and_send_video lower w url s)) (os_path_join d name) = None)"
proof -
  let ?P = "\<lambda>s. TempDirCreated d \<in> set (trace s) \<and> gone d s"
  let ?s0 = "s\<lparr>processing_msg := None\<rparr>"
  obtain r s1 where run: "with_TemporaryDirectory w (with_body w url) ?s0 = (r, s1)"
    by (cases "with_TemporaryDirectory w (with_body w url) ?s0")
  have s1: "?P s1"
    using with_gone [of w d ?s0 url] with_recorded [of w d url ?s0] assms run by simp
  have fr: "frame ?P"
    using frame_gone [of d] by (simp add: frame_def)
  have "?P (snd ((if is_DownloadError e then on_DownloadError w e
             else if is_Exception e then on_Exception w e else act_raise e) s1))" for e
    using preserves_on_DownloadError [OF fr, of w e] preserves_on_Exception [OF fr, of w e]
      preserves_raise [of ?P e] s1
    by (auto simp: preserves_def)
  with s1 run assms(1) have "?P (snd (download_and_send_video lower w url s))"
    by (cases r)
       (simp_all add: download_and_send_video_def act_bind_def assign_processing_msg_def
          try_except_def)
  then show ?thesis by (simp add: gone_def)
qed

theorem temporary_directory_removed_witness:
  "is_supported_url ascii_lower sample_url
   \<and> w_mkdtemp fetch_fails_world = Inr sample_dir
   \<and> w_download fetch_fails_world = Some (DownloadError, lit ''ERROR: HTTP Error 403'')
   \<and> TempDirCreated sample_dir
        \<in> set (trace (snd (download_and_send_video ascii_lower fetch_fails_world sample_url initial)))
   \<and> dirs (snd (download_and_send_video ascii_lower fetch_fails_world sample_url initial)) sample_dir
        = None
   \<and> (\<forall>name. files (snd (download_and_send_video ascii_lower fetch_fails_world sample_url initial))
                (os_path_join sample_dir name) = None)"
proof -
  have mk: "w_mkdtemp fetch_fails_world = Inr sample_dir"
    by (simp add: fetch_fails_world_def sample_world_def)
  have fresh: "\<forall>name. files initial (os_path_join sample_dir name) = None"
    by (simp add: initial_def)
  show ?thesis
    using temporary_directory_removed [OF sample_supported mk fresh] sample_supported mk
    by (simp add: fetch_fails_world_def sample_world_def)
qed

section \<open>Failure of the probe\<close>

text \<open>
  Claim C4 as stated fails on the code: when the probe raises \<open>DownloadError\<close> (a private
  video), the temporary directory has been created, because the \<open>with\<close> block that creates it
  (line 80) encloses the probe (line 89).
\<close>

theorem probe_failure_directory_was_created:
  "w_extract_info private_world = Inl (DownloadError, lit ''ERROR: Private video'')
   \<and> TempDirCreated sample_dir
        \<in> set (trace (snd (download_and_send_video ascii_lower private_world sample_url initial)))"
  using sample_supported
  by (simp add: handler_defs private_world_def sample_world_def initial_def)

text \<open>
  Claim C4, amended. When the probe raises \<open>DownloadError\<close>, the calls of the run are
  exactly: the temporary directory is created, the downloader is built, the typing action
  is sent, the probe is made, the temporary directory is removed, the failure is logged,
  and the user is sent the "might be private or age-restricted" message. No download is
  attempted; the temporary directory is created before the probe and removed before the
  message is sent.
\<close>

theorem probe_DownloadError_run:
  assumes "is_supported_url lower url"
    and "w_mkdtemp w = Inr d" and "w_ydl_init w = None" and "w_typing_action w = None"
    and "w_extract_info w = Inl e" and "is_DownloadError e"
  shows "trace (snd (download_and_send_video lower w url s)) =
           trace s @
             [TempDirCreated d,
              YoutubeDL (os_path_join d (lit ''%(title)s.%(ext)s'')),
              ReplyChatAction (lit ''typing''),
              ExtractInfo url,
              TempDirRemoved d,
              LogError (10060 # lit '' Download failed: '' @ snd e),
              ReplyText
                ([9888, 65039] @ lit '' Couldn'' @ [39]
                   @ lit ''t download this video. It might be private or age-restricted.'')]"
  using assms by (simp add: handler_defs download_failed_text_def)

theorem probe_DownloadError_run_witness:
  "is_supported_url ascii_lower sample_url
   \<and> w_extract_info private_world = Inl (DownloadError, lit ''ERROR: Private video'')
   \<and> is_DownloadError (DownloadError, lit ''ERROR: Private video'')
   \<and> trace (snd (download_and_send_video ascii_lower private_world sample_url initial)) =
       [TempDirCreated sample_dir,
        YoutubeDL (lit ''/tmp/tmpq1/%(title)s.%(ext)s''),
        ReplyChatAction (lit ''typing''),
        ExtractInfo sample_url,
        TempDirRemoved sample_dir,
        LogError (10060 # lit '' Download failed: ERROR: Private video''),
        ReplyText
          ([9888, 65039] @ lit '' Couldn'' @ [39]
             @ lit ''t download this video. It might be private or age-restricted.'')]"
proof -
  have w: "w_mkdtemp private_world = Inr sample_dir" "w_ydl_init private_world = None"
    "w_typing_action private_world = None"
    "w_extract_info private_world = Inl (DownloadError, lit ''ERROR: Private video'')"
    by (simp_all add: private_world_def sample_world_def)
  have e: "is_DownloadError (DownloadError, lit ''ERROR: Private video'')"
    by (simp add: is_DownloadError_def)
  show ?thesis
    using probe_DownloadError_run [OF sample_supported w e, of initial] sample_supported w e
    by (simp add: initial_def sample_dir_def os_path_join_def lit_def suffix_to_prefix)
qed

section \<open>Failure of the progress notification\<close>

text \<open>
  Claim C5 as stated fails on the code: the probe succeeds and sending the progress message
  raises a transport error; no download is attempted and nothing is uploaded.
\<close>

theorem notify_failure_stops_the_run:
  "w_extract_info notify_fails_world = Inr sample_info
   \<and> w_notify_reply notify_fails_world = Inl (TelegramError, lit ''Timed out'')
   \<and> Download sample_url
        \<notin> set (trace (snd (download_and_send_video ascii_lower notify_fails_world sample_url initial)))
   \<and> uploads (trace (snd (download_and_send_video ascii_lower notify_fails_world sample_url initial)))
        = []"
  using sample_supported sample_progress
  by (simp add: handler_defs notify_fails_world_def sample_world_def initial_def uploads_simps)

text \<open>
  Claim C5, amended. When the probe succeeded and sending the progress message raises an
  exception of class \<open>Exception\<close> other than \<open>DownloadError\<close> (as every transport error
  is), the failure ends the request: after the failed send the temporary directory is
  removed, the failure is logged and the user is sent the generic "unexpected error"
  message; no download and no upload is attempted.
\<close>

theorem notify_failure_run:
  assumes "is_supported_url lower url"
    and "w_mkdtemp w = Inr d" and "w_ydl_init w = None" and "w_typing_action w = None"
    and "w_extract_info w = Inr info" and "progress_text info = Inr text"
    and "w_notify_reply w = Inl e" and "\<not> is_DownloadError e" and "is_Exception e"
  shows "trace (snd (download_and_send_video lower w url s)) =
           trace s @
             [TempDirCreated d,
              YoutubeDL (os_path_join d (lit ''%(title)s.%(ext)s'')),
              ReplyChatAction (lit ''typing''),
              ExtractInfo url,
              ReplyText text,
              TempDirRemoved d,
              LogError (lit ''Unexpected error: '' @ snd e),
              ReplyText (10060 # lit '' An unexpected error occurred. Please try again later.'')]"
  using assms by (simp add: handler_defs unexpected_text_def split: option.splits)

theorem notify_failure_run_witness:
  "is_supported_url ascii_lower sample_url
   \<and> w_extract_info notify_fails_world = Inr sample_info
   \<and> w_notify_reply notify_fails_world = Inl (TelegramError, lit ''Timed out'')
   \<and> \<not> is_DownloadError (TelegramError, lit ''Timed out'')
   \<and> is_Exception (TelegramError, lit ''Timed out'')
   \<and> trace (snd (download_and_send_video ascii_lower notify_fails_world sample_url initial)) =
       [TempDirCreated sample_dir,
        YoutubeDL (lit ''/tmp/tmpq1/%(title)s.%(ext)s''),
        ReplyChatAction (lit ''typing''),
        ExtractInfo sample_url,
        ReplyText (9203 # lit '' Downloading: Sample'' @ [10] @ 9201 # lit '' Duration: 2 minutes''),
        TempDirRemoved sample_dir,
        LogError (lit ''Unexpected error: Timed out''),
        ReplyText (10060 # lit '' An unexpected error occurred. Please try again later.'')]"
proof -
  have w: "w_mkdtemp notify_fails_world = Inr sample_dir" "w_ydl_init notify_fails_world = None"
    "w_typing_action notify_fails_world = None"
    "w_extract_info notify_fails_world = Inr sample_info"
    by (simp_all add: notify_fails_world_def sample_world_def)
  have n: "w_notify_reply notify_fails_world = Inl (TelegramError, lit ''Timed out'')"
    by (simp add: notify_fails_world_def sample_world_def)
  have e: "\<not> is_DownloadError (TelegramError, lit ''Timed out'')"
    "is_Exception (TelegramError, lit ''Timed out'')"
    by (simp_all add: is_DownloadError_def is_Exception_def)
  show ?thesis
    using notify_failure_run [OF sample_supported w sample_progress n e, of initial]
      sample_supported w n e
    by (simp add: initial_def sample_dir_def os_path_join_def lit_def suffix_to_prefix)
qed

section \<open>Deleting the progress message\<close>

text \<open>
  Claim C6, evaluated on the code. First run: the progress message 7 has been sent and the
  download raises \<open>DownloadError\<close>; the first \<open>except\<close> clause logs and answers, and the
  progress message is never deleted. Second run: the video has been delivered and deleting
  the progress message raises; the exception reaches the second \<open>except\<close> clause, which
  sends the user the "unexpected error" message before it tries the deletion again.
\<close>

theorem progress_message_deletion_runs:
  "trace (snd (download_and_send_video ascii_lower fetch_fails_world sample_url initial)) =
     [TempDirCreated sample_dir,
      YoutubeDL (lit ''/tmp/tmpq1/%(title)s.%(ext)s''),
      ReplyChatAction (lit ''typing''),
      ExtractInfo sample_url,
      ReplyText (9203 # lit '' Downloading: Sample'' @ [10] @ 9201 # lit '' Duration: 2 minutes''),
      Download sample_url,
      TempDirRemoved sample_dir,
      LogError (10060 # lit '' Download failed: ERROR: HTTP Error 403''),
      ReplyText
        ([9888, 65039] @ lit '' Couldn'' @ [39]
           @ lit ''t download this video. It might be private or age-restricted.'')]
   \<and> processing_msg (snd (download_and_send_video ascii_lower fetch_fails_world sample_url initial))
       = Some 7
   \<and> trace (snd (download_and_send_video ascii_lower delete_fails_world sample_url initial)) =
     [TempDirCreated sample_dir,
      YoutubeDL (lit ''/tmp/tmpq1/%(title)s.%(ext)s''),
      ReplyChatAction (lit ''typing''),
      ExtractInfo sample_url,
      ReplyText (9203 # lit '' Downloading: Sample'' @ [10] @ 9201 # lit '' Duration: 2 minutes''),
      Download sample_url,
      ReplyChatAction (lit ''upload_video''),
      ReplyVideo (lit ''/tmp/tmpq1/Sample.mp4'') (9989 # lit '' Sample'') True 60 60,
      DeleteMessage 7,
      TempDirRemoved sample_dir,
      LogError (lit ''Unexpected error: Message to delete not found''),
      ReplyText (10060 # lit '' An unexpected error occurred. Please try again later.''),
      DeleteMessage 7]"
  using sample_supported sample_progress
  by (simp add: handler_defs fetch_fails_world_def delete_fails_world_def sample_world_def
        initial_def sample_dir_def sample_info_def os_path_join_def download_failed_text_def
        unexpected_text_def video_caption_def dict_get_def py_format_def lit_def suffix_to_prefix)

section \<open>No video file after the download\<close>

text \<open>
  Claim C7. When the download returns and the temporary directory lists no name ending in
  \<open>.mp4\<close>, the handler raises the plain exception "No video file found after download":
  the calls of the run are exactly those below, ending with the temporary directory removed,
  the failure logged, the generic "unexpected error ... try again later" message sent to the
  user (not the extraction-specific one) and, when that message was sent, the progress
  message deleted. Afterwards the directory and every file the download left in it are
  absent.
\<close>

theorem no_video_file_run:
  assumes "is_supported_url lower url"
    and "w_mkdtemp w = Inr d" and "w_ydl_init w = None" and "w_typing_action w = None"
    and "w_extract_info w = Inr info" and "progress_text info = Inr text"
    and "w_notify_reply w = Inr m" and "w_download w = None"
    and "filter (\<lambda>f. suffix (lit ''.mp4'') f) (map fst (w_download_writes w)) = []"
  shows "trace (snd (download_and_send_video lower w url s)) =
           trace s @
             [TempDirCreated d,
              YoutubeDL (os_path_join d (lit ''%(title)s.%(ext)s'')),
              ReplyChatAction (lit ''typing''),
              ExtractInfo url,
              ReplyText text,
              Download url,
              TempDirRemoved d,
              LogError (lit ''Unexpected error: No video file found after download''),
              ReplyText (10060 # lit '' An unexpected error occurred. Please try again later.'')]
             @ (if w_unexpected_reply w = None then [DeleteMessage m] else [])
         \<and> dirs (snd (download_and_send_video lower w url s)) d = None
         \<and> (\<forall>name \<in> fst ` set (w_download_writes w).
               files (snd (download_and_send_video lower w url s)) (os_path_join d name) = None)"
  using assms
  by (simp add: handler_defs fold_remove lit_append unexpected_text_def split: option.splits)

theorem no_video_file_run_witness:
  "is_supported_url ascii_lower sample_url
   \<and> w_download_writes no_mp4_world = [(lit ''Sample.vtt'', 900), (lit ''Sample.webm'', 1000)]
   \<and> filter (\<lambda>f. suffix (lit ''.mp4'') f) (map fst (w_download_writes no_mp4_world)) = []
   \<and> trace (snd (download_and_send_video ascii_lower no_mp4_world sample_url initial)) =
       [TempDirCreated sample_dir,
        YoutubeDL (lit ''/tmp/tmpq1/%(title)s.%(ext)s''),
        ReplyChatAction (lit ''typing''),
        ExtractInfo sample_url,
        ReplyText (9203 # lit '' Downloading: Sample'' @ [10] @ 9201 # lit '' Duration: 2 minutes''),
        Download sample_url,
        TempDirRemoved sample_dir,
        LogError (lit ''Unexpected error: No video file found after download''),
        ReplyText (10060 # lit '' An unexpected error occurred. Please try again later.''),
        DeleteMessage 7]
   \<and> dirs (snd (download_and_send_video ascii_lower no_mp4_world sample_url initial)) sample_dir
       = None
   \<and> files (snd (download_and_send_video ascii_lower no_mp4_world sample_url initial))
        (os_path_join sample_dir (lit ''Sample.webm'')) = None"
proof -
  have w: "w_mkdtemp no_mp4_world = Inr sample_dir" "w_ydl_init no_mp4_world = None"
    "w_typing_action no_mp4_world = None" "w_extract_info no_mp4_world = Inr sample_info"
    by (simp_all add: no_mp4_world_def sample_world_def)
  have n: "w_notify_reply no_mp4_world = Inr 7" "w_download no_mp4_world = None"
    by (simp_all add: no_mp4_world_def sample_world_def)
  have wr: "w_download_writes no_mp4_world = [(lit ''Sample.vtt'', 900), (lit ''Sample.webm'', 1000)]"
    by (simp add: no_mp4_world_def sample_world_def)
  have f: "filter (\<lambda>f. suffix (lit ''.mp4'') f) (map fst (w_download_writes no_mp4_world)) = []"
    by (simp add: wr lit_def suffix_to_prefix)
  have u: "w_unexpected_reply no_mp4_world = None"
    by (simp add: no_mp4_world_def sample_world_def)
  show ?thesis
    using no_video_file_run [OF sample_supported w sample_progress n f, of initial]
      sample_supported wr f u
    by (simp add: initial_def sample_dir_def os_path_join_def lit_def suffix_to_prefix)
qed

section \<open>Which file is delivered\<close>

text \<open>
  Claim C9. In a run that reaches the listing of the temporary directory (probe, progress
  message and download returned): when the names ending in \<open>.mp4\<close>, in listing order, are
  \<open>first # others\<close> and the upload action is sent, the files handed to the transport during
  the run are exactly the one file \<open>first\<close> of the directory; names with another ending are
  filtered out before the choice, and when no name ends in \<open>.mp4\<close>, even though the
  directory may list other files, nothing is handed to the transport and the run fails with
  "No video file found after download".
\<close>

theorem first_mp4_is_uploaded:
  assumes "is_supported_url lower url"
    and "w_mkdtemp w = Inr d" and "w_ydl_init w = None" and "w_typing_action w = None"
    and "w_extract_info w = Inr info" and "progress_text info = Inr text"
    and "w_notify_reply w = Inr m" and "w_download w = None"
  shows "(filter (\<lambda>f. suffix (lit ''.mp4'') f) (map fst (w_download_writes w)) = first # others
            \<and> w_upload_action w = None \<longrightarrow>
          uploads (trace (snd (download_and_send_video lower w url s))) =
            uploads (trace s) @ [os_path_join d first])
       \<and> (filter (\<lambda>f. suffix (lit ''.mp4'') f) (map fst (w_download_writes w)) = [] \<longrightarrow>
          uploads (trace (snd (download_and_send_video lower w url s))) = uploads (trace s)
          \<and> LogError (lit ''Unexpected error: No video file found after download'')
               \<in> set (trace (snd (download_and_send_video lower w url s))))"
proof (intro conjI impI)
  assume a: "filter (\<lambda>f. suffix (lit ''.mp4'') f) (map fst (w_download_writes w)) = first # others
            \<and> w_upload_action w = None"
  then have "first \<in> set (filter (\<lambda>f. suffix (lit ''.mp4'') f) (map fst (w_download_writes w)))"
    by simp
  then have "first \<in> fst ` set (w_download_writes w)" by auto
  then obtain sz where sz:
    "fold (\<lambda>(name, sz) m. m(os_path_join d name \<mapsto> sz)) (w_download_writes w) (files s)
       (os_path_join d first) = Some sz"
    using fold_write_some [of first "w_download_writes w" d "files s"] by auto
  show "uploads (trace (snd (download_and_send_video lower w url s))) =
            uploads (trace s) @ [os_path_join d first]"
    using assms a sz
    by (simp add: handler_defs uploads_append uploads_simps split: option.splits)
next
  assume "filter (\<lambda>f. suffix (lit ''.mp4'') f) (map fst (w_download_writes w)) = []"
  then show "uploads (trace (snd (download_and_send_video lower w url s))) = uploads (trace s)"
    using assms
    by (simp add: handler_defs uploads_append uploads_simps split: option.splits)
next
  assume "filter (\<lambda>f. suffix (lit ''.mp4'') f) (map fst (w_download_writes w)) = []"
  then show "LogError (lit ''Unexpected error: No video file found after download'')
               \<in> set (trace (snd (download_and_send_video lower w url s)))"
    using assms
    by (simp add: handler_defs lit_append split: option.splits)
qed

theorem first_mp4_is_uploaded_witness:
  "filter (\<lambda>f. suffix (lit ''.mp4'') f) (map fst (w_download_writes two_mp4_world)) =
     [lit ''Sample.f137.mp4'', lit ''Sample.mp4'']
   \<and> uploads (trace (snd (download_and_send_video ascii_lower two_mp4_world sample_url initial))) =
       [lit ''/tmp/tmpq1/Sample.f137.mp4'']
   \<and> map fst (w_download_writes no_mp4_world) = [lit ''Sample.vtt'', lit ''Sample.webm'']
   \<and> filter (\<lambda>f. suffix (lit ''.mp4'') f) (map fst (w_download_writes no_mp4_world)) = []
   \<and> uploads (trace (snd (download_and_send_video ascii_lower no_mp4_world sample_url initial))) = []
   \<and> LogError (lit ''Unexpected error: No video file found after download'')
        \<in> set (trace (snd (download_and_send_video ascii_lower no_mp4_world sample_url initial)))"
proof -
  have w: "w_mkdtemp two_mp4_world = Inr sample_dir" "w_ydl_init two_mp4_world = None"
    "w_typing_action two_mp4_world = None" "w_extract_info two_mp4_world = Inr sample_info"
    by (simp_all add: two_mp4_world_def sample_world_def)
  have n: "w_notify_reply two_mp4_world = Inr 7" "w_download two_mp4_world = None"
    by (simp_all add: two_mp4_world_def sample_world_def)
  have f: "filter (\<lambda>f. suffix (lit ''.mp4'') f) (map fst (w_download_writes two_mp4_world))
             = [lit ''Sample.f137.mp4'', lit ''Sample.mp4'']"
    by (simp add: two_mp4_world_def sample_world_def lit_def suffix_to_prefix)
  have u: "w_upload_action two_mp4_world = None"
    by (simp add: two_mp4_world_def sample_world_def)
  have w': "w_mkdtemp no_mp4_world = Inr sample_dir" "w_ydl_init no_mp4_world = None"
    "w_typing_action no_mp4_world = None" "w_extract_info no_mp4_world = Inr sample_info"
    by (simp_all add: no_mp4_world_def sample_world_def)
  have n': "w_notify_reply no_mp4_world = Inr 7" "w_download no_mp4_world = None"
    by (simp_all add: no_mp4_world_def sample_world_def)
  have wr': "map fst (w_download_writes no_mp4_world) = [lit ''Sample.vtt'', lit ''Sample.webm'']"
    by (simp add: no_mp4_world_def sample_world_def)
  have f': "filter (\<lambda>f. suffix (lit ''.mp4'') f) (map fst (w_download_writes no_mp4_world)) = []"
    by (simp add: wr' lit_def suffix_to_prefix)
  show ?thesis
    using first_mp4_is_uploaded [OF sample_supported w sample_progress n,
        of "lit ''Sample.f137.mp4''" "[lit ''Sample.mp4'']" initial]
      first_mp4_is_uploaded [OF sample_supported w' sample_progress n', of _ _ initial]
      f u wr' f'
    by (simp add: initial_def sample_dir_def os_path_join_def uploads_simps lit_def suffix_to_prefix)
qed

section \<open>Missing metadata fields\<close>

text \<open>
  Claim C10. When the metadata dictionary returned by the probe lacks a field, that is, has
  no \<open>title\<close> key or no \<open>duration\<close> key (a key that is present with the value \<open>None\<close> is
  another case and is not claimed), the handler substitutes fixed defaults and does not
  fail on it. In every run in which the probe returns such a dictionary, the first five
  calls of the handler are the creation of the directory, the construction of the
  downloader, the typing action, the probe and the progress message, and the text of that
  message is: without either key, "Downloading: video" and "Duration: 0 minutes"; without
  a title only, the title \<open>video\<close> with the duration computed from the metadata; without
  a duration only, the metadata's title with \<open>0 minutes\<close>. And when such a run reaches a
  streamable delivery (the chosen file is smaller than 2000 * 1024 * 1024 bytes) with no
  \<open>title\<close> key, its one upload call is \<open>reply_video\<close> with the caption "Downloaded Video"
  after the check mark.
\<close>

theorem missing_fields_defaults:
  assumes "is_supported_url lower url"
    and "w_mkdtemp w = Inr d" and "w_ydl_init w = None" and "w_typing_action w = None"
    and "w_extract_info w = Inr info"
  shows "(info ''title'' = None \<and> info ''duration'' = None \<longrightarrow>
            prefix (trace s @
                      [TempDirCreated d,
                       YoutubeDL (os_path_join d (lit ''%(title)s.%(ext)s'')),
                       ReplyChatAction (lit ''typing''),
                       ExtractInfo url,
                       ReplyText (9203 # lit '' Downloading: video'' @ [10]
                                  @ 9201 # lit '' Duration: 0 minutes'')])
              (trace (snd (download_and_send_video lower w url s))))
       \<and> (info ''title'' = None \<and> info ''duration'' = Some (IntVal k) \<longrightarrow>
            prefix (trace s @
                      [TempDirCreated d,
                       YoutubeDL (os_path_join d (lit ''%(title)s.%(ext)s'')),
                       ReplyChatAction (lit ''typing''),
                       ExtractInfo url,
                       ReplyText (9203 # lit '' Downloading: video'' @ [10]
                                  @ 9201 # lit '' Duration: '' @ int_str (k div 60)
                                  @ lit '' minutes'')])
              (trace (snd (download_and_send_video lower w url s))))
       \<and> (info ''title'' = Some (Str t) \<and> info ''duration'' = None \<longrightarrow>
            prefix (trace s @
                      [TempDirCreated d,
                       YoutubeDL (os_path_join d (lit ''%(title)s.%(ext)s'')),
                       ReplyChatAction (lit ''typing''),
                       ExtractInfo url,
                       ReplyText (9203 # lit '' Downloading: '' @ t @ [10]
                                  @ 9201 # lit '' Duration: 0 minutes'')])
              (trace (snd (download_and_send_video lower w url s))))
       \<and> (info ''title'' = None \<and> progress_text info = Inr shown
            \<and> w_notify_reply w = Inr m \<and> w_download w = None
            \<and> filter (\<lambda>f. suffix (lit ''.mp4'') f) (map fst (w_download_writes w)) = first # others
            \<and> w_upload_action w = None
            \<and> distinct (map (\<lambda>(name, sz). os_path_join d name) (w_download_writes w))
            \<and> (first, n) \<in> set (w_download_writes w)
            \<and> n < 2000 * 1024 * 1024 \<longrightarrow>
            upload_calls (trace (snd (download_and_send_video lower w url s))) =
              upload_calls (trace s) @
                [ReplyVideo (os_path_join d first) (9989 # lit '' Downloaded Video'') True 60 60])"
proof (intro conjI impI)
  assume "info ''title'' = None \<and> info ''duration'' = None"
  then have "progress_text info =
       Inr (9203 # lit '' Downloading: video'' @ [10] @ 9201 # lit '' Duration: 0 minutes'')"
    by (simp add: progress_text_defaults(1))
  then show "prefix (trace s @
                      [TempDirCreated d,
                       YoutubeDL (os_path_join d (lit ''%(title)s.%(ext)s'')),
                       ReplyChatAction (lit ''typing''),
                       ExtractInfo url,
                       ReplyText (9203 # lit '' Downloading: video'' @ [10]
                                  @ 9201 # lit '' Duration: 0 minutes'')])
              (trace (snd (download_and_send_video lower w url s)))"
    by (rule run_notified [OF assms])
next
  assume "info ''title'' = None \<and> info ''duration'' = Some (IntVal k)"
  then have "progress_text info =
       Inr (9203 # lit '' Downloading: video'' @ [10]
            @ 9201 # lit '' Duration: '' @ int_str (k div 60) @ lit '' minutes'')"
    by (simp add: progress_text_defaults(2))
  then show "prefix (trace s @
                      [TempDirCreated d,
                       YoutubeDL (os_path_join d (lit ''%(title)s.%(ext)s'')),
                       ReplyChatAction (lit ''typing''),
                       ExtractInfo url,
                       ReplyText (9203 # lit '' Downloading: video'' @ [10]
                                  @ 9201 # lit '' Duration: '' @ int_str (k div 60)
                                  @ lit '' minutes'')])
              (trace (snd (download_and_send_video lower w url s)))"
    by (rule run_notified [OF assms])
next
  assume "info ''title'' = Some (Str t) \<and> info ''duration'' = None"
  then have "progress_text info =
       Inr (9203 # lit '' Downloading: '' @ t @ [10] @ 9201 # lit '' Duration: 0 minutes'')"
    by (simp add: progress_text_defaults(3))
  then show "prefix (trace s @
                      [TempDirCreated d,
                       YoutubeDL (os_path_join d (lit ''%(title)s.%(ext)s'')),
                       ReplyChatAction (lit ''typing''),
                       ExtractInfo url,
                       ReplyText (9203 # lit '' Downloading: '' @ t @ [10]
                                  @ 9201 # lit '' Duration: 0 minutes'')])
              (trace (snd (download_and_send_video lower w url s)))"
    by (rule run_notified [OF assms])
next
  assume a: "info ''title'' = None \<and> progress_text info = Inr shown
            \<and> w_notify_reply w = Inr m \<and> w_download w = None
            \<and> filter (\<lambda>f. suffix (lit ''.mp4'') f) (map fst (w_download_writes w)) = first # others
            \<and> w_upload_action w = None
            \<and> distinct (map (\<lambda>(name, sz). os_path_join d name) (w_download_writes w))
            \<and> (first, n) \<in> set (w_download_writes w)
            \<and> n < 2000 * 1024 * 1024"
  then have sz: "fold (\<lambda>(name, sz) m. m(os_path_join d name \<mapsto> sz)) (w_download_writes w) (files s)
       (os_path_join d first) = Some n"
    using fold_write_lookup [of d "w_download_writes w" first n "files s"] by simp
  from a have cap: "video_caption info = 9989 # lit '' Downloaded Video''"
    by (simp add: video_caption_def dict_get_def py_format_def lit_def)
  from a have run: "progress_text info = Inr shown" "w_notify_reply w = Inr m" "w_download w = None"
    "filter (\<lambda>f. suffix (lit ''.mp4'') f) (map fst (w_download_writes w)) = first # others"
    "w_upload_action w = None" "n < 2000 * 1024 * 1024"
    by simp_all
  show "upload_calls (trace (snd (download_and_send_video lower w url s))) =
              upload_calls (trace s) @
                [ReplyVideo (os_path_join d first) (9989 # lit '' Downloaded Video'') True 60 60]"
    using assms run sz cap
    by (simp add: handler_defs upload_calls_append upload_calls_simps split: option.splits)
qed

theorem missing_fields_defaults_witness:
  "w_extract_info no_fields_world = Inr Map.empty
   \<and> prefix [TempDirCreated sample_dir,
             YoutubeDL (lit ''/tmp/tmpq1/%(title)s.%(ext)s''),
             ReplyChatAction (lit ''typing''),
             ExtractInfo sample_url,
             ReplyText (9203 # lit '' Downloading: video'' @ [10]
                        @ 9201 # lit '' Duration: 0 minutes'')]
        (trace (snd (download_and_send_video ascii_lower no_fields_world sample_url initial)))
   \<and> upload_calls
        (trace (snd (download_and_send_video ascii_lower no_fields_world sample_url initial))) =
       [ReplyVideo (lit ''/tmp/tmpq1/Sample.mp4'') (9989 # lit '' Downloaded Video'') True 60 60]
   \<and> prefix [TempDirCreated sample_dir,
             YoutubeDL (lit ''/tmp/tmpq1/%(title)s.%(ext)s''),
             ReplyChatAction (lit ''typing''),
             ExtractInfo sample_url,
             ReplyText (9203 # lit '' Downloading: video'' @ [10]
                        @ 9201 # lit '' Duration: 2 minutes'')]
        (trace (snd (download_and_send_video ascii_lower no_title_world sample_url initial)))
   \<and> prefix [TempDirCreated sample_dir,
             YoutubeDL (lit ''/tmp/tmpq1/%(title)s.%(ext)s''),
             ReplyChatAction (lit ''typing''),
             ExtractInfo sample_url,
             ReplyText (9203 # lit '' Downloading: Sample'' @ [10]
                        @ 9201 # lit '' Duration: 0 minutes'')]
        (trace (snd (download_and_send_video ascii_lower no_duration_world sample_url initial)))"
proof -
  have w0: "w_mkdtemp no_fields_world = Inr sample_dir" "w_ydl_init no_fields_world = None"
    "w_typing_action no_fields_world = None" "w_extract_info no_fields_world = Inr Map.empty"
    by (simp_all add: no_fields_world_def sample_world_def)
  have w1: "w_mkdtemp no_title_world = Inr sample_dir" "w_ydl_init no_title_world = None"
    "w_typing_action no_title_world = None"
    "w_extract_info no_title_world = Inr [''duration'' \<mapsto> IntVal 125]"
    by (simp_all add: no_title_world_def sample_world_def)
  have w2: "w_mkdtemp no_duration_world = Inr sample_dir" "w_ydl_init no_duration_world = None"
    "w_typing_action no_duration_world = None"
    "w_extract_info no_duration_world = Inr [''title'' \<mapsto> Str (lit ''Sample'')]"
    by (simp_all add: no_duration_world_def sample_world_def)
  have p0: "progress_text Map.empty =
       Inr (9203 # lit '' Downloading: video'' @ [10] @ 9201 # lit '' Duration: 0 minutes'')"
    by (simp add: progress_text_defaults(1))
  have r0: "w_notify_reply no_fields_world = Inr 7" "w_download no_fields_world = None"
    "w_upload_action no_fields_world = None"
    "filter (\<lambda>f. suffix (lit ''.mp4'') f) (map fst (w_download_writes no_fields_world))
       = [lit ''Sample.mp4'']"
    "distinct (map (\<lambda>(name, sz). os_path_join sample_dir name) (w_download_writes no_fields_world))"
    "(lit ''Sample.mp4'', 50 * 1024 * 1024) \<in> set (w_download_writes no_fields_world)"
    by (simp_all add: no_fields_world_def sample_world_def sample_dir_def os_path_join_def
          lit_def suffix_to_prefix)
  show ?thesis
    using missing_fields_defaults [OF sample_supported w0,
        where s = initial and first = "lit ''Sample.mp4''" and others = "[]"
          and n = "50 * 1024 * 1024" and m = 7
          and shown = "9203 # lit '' Downloading: video'' @ [10] @ 9201 # lit '' Duration: 0 minutes''"]
      missing_fields_defaults [OF sample_supported w1, where s = initial and k = 125]
      missing_fields_defaults [OF sample_supported w2, where s = initial and t = "lit ''Sample''"]
      w0(4) p0 r0
    by (simp add: initial_def sample_dir_def os_path_join_def upload_calls_simps
          int_str_def nat_digits.simps lit_def suffix_to_prefix)
qed

end
